theory Spec2Isabelle
  imports Main
begin

section \<open>Python values\<close>

text \<open>
  A Python \<open>str\<close> is a sequence of Unicode code points; a code point is a natural
  number.  \<open>str\<close> turns an ASCII literal of the source into such a sequence.
\<close>

type_synonym pystr = "nat list"

definition str :: "string \<Rightarrow> pystr" where
  "str s = map of_char s"

text \<open>
  A Python \<open>float\<close>: a finite double is \<open>m * 2 ^ e\<close> for integers \<open>m\<close>, \<open>e\<close>;
  the decoder of the standard library also produces infinities and NaN.
\<close>

datatype pyfloat = Finite int int | Infinity bool | NaN

text \<open>
  What \<open>json.loads\<close> produces: \<open>None\<close>, \<open>bool\<close>, \<open>int\<close>, \<open>float\<close>, \<open>str\<close>,
  \<open>list\<close>, and \<open>dict\<close> with \<open>str\<close> keys.  A \<open>dict\<close> is the list of its items in
  insertion order (the keys of a \<open>dict\<close> are distinct).
\<close>

datatype json =
    JNull
  | JBool bool
  | JInt int
  | JFloat pyfloat
  | JStr pystr
  | JList "json list"
  | JObj "(pystr \<times> json) list"

type_synonym pydict = "(pystr \<times> json) list"

text \<open>\<open>d.get(k)\<close>, \<open>d.get(k, default)\<close> and \<open>k in d\<close>.\<close>

definition get_default :: "pydict \<Rightarrow> pystr \<Rightarrow> json \<Rightarrow> json" where
  "get_default d k dflt = (case map_of d k of None \<Rightarrow> dflt | Some v \<Rightarrow> v)"

definition get :: "pydict \<Rightarrow> pystr \<Rightarrow> json" where
  "get d k = get_default d k JNull"

definition has_key :: "pydict \<Rightarrow> pystr \<Rightarrow> bool" where
  "has_key d k = (map_of d k \<noteq> None)"

text \<open>The truth value Python gives a decoded value in \<open>if v:\<close>.\<close>

fun truthy :: "json \<Rightarrow> bool" where
  "truthy JNull = False"
| "truthy (JBool b) = b"
| "truthy (JInt i) = (i \<noteq> 0)"
| "truthy (JFloat (Finite m e)) = (m \<noteq> 0)"
| "truthy (JFloat (Infinity s)) = True"
| "truthy (JFloat NaN) = True"
| "truthy (JStr s) = (s \<noteq> [])"
| "truthy (JList xs) = (xs \<noteq> [])"
| "truthy (JObj d) = (d \<noteq> [])"

subsection \<open>String operations\<close>

text \<open>\<open>str.isspace\<close> on one code point, as CPython's \<open>_PyUnicode_IsWhitespace\<close>.\<close>

definition is_space :: "nat \<Rightarrow> bool" where
  "is_space c \<longleftrightarrow>
     (9 \<le> c \<and> c \<le> 13) \<or> (28 \<le> c \<and> c \<le> 32) \<or> c = 133 \<or> c = 160 \<or> c = 5760 \<or>
     (8192 \<le> c \<and> c \<le> 8202) \<or> c = 8232 \<or> c = 8233 \<or> c = 8239 \<or> c = 8287 \<or>
     c = 12288"

text \<open>The line boundaries of \<open>str.splitlines\<close>, as CPython's \<open>_PyUnicode_IsLinebreak\<close>.\<close>

definition is_linebreak :: "nat \<Rightarrow> bool" where
  "is_linebreak c \<longleftrightarrow>
     (10 \<le> c \<and> c \<le> 13) \<or> (28 \<le> c \<and> c \<le> 30) \<or> c = 133 \<or> c = 8232 \<or> c = 8233"

definition strip :: "pystr \<Rightarrow> pystr" where
  "strip s = rev (dropWhile is_space (rev (dropWhile is_space s)))"

text \<open>
  \<open>str.splitlines()\<close>: \<open>cur\<close> is the line being read.  A carriage return followed by
  a line feed is one boundary; a boundary at the very end opens no further line.
\<close>

fun splitlines_from :: "pystr \<Rightarrow> pystr \<Rightarrow> pystr list" where
  "splitlines_from cur [] = (if cur = [] then [] else [cur])"
| "splitlines_from cur [c] = (if is_linebreak c then [cur] else [cur @ [c]])"
| "splitlines_from cur (c # d # cs) =
     (if c = 13 \<and> d = 10 then cur # splitlines_from [] cs
      else if is_linebreak c then cur # splitlines_from [] (d # cs)
      else splitlines_from (cur @ [c]) (d # cs))"

definition splitlines :: "pystr \<Rightarrow> pystr list" where
  "splitlines s = splitlines_from [] s"

definition startswith :: "pystr \<Rightarrow> pystr \<Rightarrow> bool" where
  "startswith s p = (take (length p) s = p)"

text \<open>\<open>sep.join(parts)\<close> for a list of strings.\<close>

fun join :: "pystr \<Rightarrow> pystr list \<Rightarrow> pystr" where
  "join sep [] = []"
| "join sep [x] = x"
| "join sep (x # y # ys) = x @ sep @ join sep (y # ys)"


section \<open>Shared contracts\<close>

text \<open>
  Modelled from the spec: \<open>clink/parsers/base.py\<close> (\<open>ParsedCLIResponse\<close>,
  \<open>ParserError\<close>, \<open>BaseParser\<close>) and \<open>clink/agents/base.py\<close> (\<open>AgentOutput\<close>,
  \<open>BaseCLIAgent\<close>) are not among the sources.  A parsed response is a content text
  and a metadata mapping from string keys to JSON-compatible values; a parser has a
  name and a \<open>parse\<close> function of stdout and stderr; an agent holds one parser; the
  execution result wraps a parsed response with the process facts.
  \<open>TypeError\<close> is the built-in exception that \<open>str.join\<close> raises on a non-string item;
  \<open>ValueError\<close> and \<open>RecursionError\<close> are the built-in exceptions that \<open>json.loads\<close>
  raises, besides \<open>JSONDecodeError\<close>, on an integer literal beyond the interpreter's
  digit limit and on nesting beyond its recursion limit.
\<close>

datatype error = ParserError pystr | TypeError | ValueError | RecursionError

type_synonym pymeta = "pystr \<rightharpoonup> json"

record ParsedCLIResponse =
  content :: pystr
  metadata :: pymeta

record BaseParser =
  parser_name :: pystr
  parser_parse :: "pystr \<Rightarrow> pystr \<Rightarrow> error + ParsedCLIResponse"

record BaseCLIAgent =
  agent_parser :: BaseParser

record AgentOutput =
  ao_parsed :: ParsedCLIResponse
  ao_sanitized_command :: "pystr list"
  ao_returncode :: int
  ao_stdout :: pystr
  ao_stderr :: pystr
  ao_duration_seconds :: pyfloat
  ao_parser_name :: pystr
  ao_output_file_content :: "pystr option"

section \<open>\<open>CopilotPlaintextParser\<close> (\<open>clink/parsers/copilot.py\<close>)\<close>

definition copilot_placeholder :: pystr where
  "copilot_placeholder =
     str ''Copilot CLI returned no textual result. Raw stderr was preserved for troubleshooting.''"

definition copilot_parse :: "pystr \<Rightarrow> pystr \<Rightarrow> error + ParsedCLIResponse" where
  "copilot_parse stdout stderr =
     (let body = strip stdout in
      if body = [] then
        (let stderr_text = strip stderr in
         if stderr_text \<noteq> [] then
           Inr \<lparr>content = copilot_placeholder,
                metadata = [str ''stderr'' \<mapsto> JStr stderr_text]\<rparr>
         else Inl (ParserError (str ''Copilot CLI returned empty output'')))
      else
        (let stderr_text = strip stderr;
             md = (if stderr_text \<noteq> [] then [str ''stderr'' \<mapsto> JStr stderr_text]
                   else Map.empty)
         in Inr \<lparr>content = body, metadata = md\<rparr>))"

definition CopilotPlaintextParser :: BaseParser where
  "CopilotPlaintextParser =
     \<lparr>parser_name = str ''copilot_plaintext'', parser_parse = copilot_parse\<rparr>"

section \<open>\<open>CopilotAgent._recover_from_error\<close> (\<open>clink/agents/copilot.py\<close>)\<close>

text \<open>\<open>"\n".join(part for part in (stdout, stderr) if part).strip()\<close>\<close>

definition combined_output :: "pystr \<Rightarrow> pystr \<Rightarrow> pystr" where
  "combined_output stdout stderr =
     strip (join [10] (filter (\<lambda>part. part \<noteq> []) [stdout, stderr]))"

definition recover_from_error ::
  "BaseCLIAgent \<Rightarrow> int \<Rightarrow> pystr \<Rightarrow> pystr \<Rightarrow> pystr list \<Rightarrow> pyfloat \<Rightarrow> pystr option
     \<Rightarrow> AgentOutput option" where
  "recover_from_error self returncode stdout stderr sanitized_command duration_seconds
       output_file_content =
     (let combined = combined_output stdout stderr in
      if combined = [] then None
      else
        (let md = [str ''cli_error_recovered'' \<mapsto> JBool True,
                   str ''cli_returncode'' \<mapsto> JInt returncode];
             parsed = \<lparr>content = combined, metadata = md\<rparr>
         in Some \<lparr>ao_parsed = parsed,
                  ao_sanitized_command = sanitized_command,
                  ao_returncode = returncode,
                  ao_stdout = stdout,
                  ao_stderr = stderr,
                  ao_duration_seconds = duration_seconds,
                  ao_parser_name = parser_name (agent_parser self),
                  ao_output_file_content = output_file_content\<rparr>))"

section \<open>\<open>QwenStreamJsonParser\<close> (\<open>clink/parsers/qwen.py\<close>)\<close>

text \<open>
  \<open>json.loads\<close> belongs to the standard library, not to the repository; it is a
  parameter \<open>loads\<close> of the model, and every fact below holds for every \<open>loads\<close>.
  The parser hands \<open>loads\<close> only lines whose first character is \<open>{\<close>, on which a
  successful decode is a \<open>dict\<close>.  A call has one of three outcomes: it returns the
  \<open>dict\<close>; it raises \<open>JSONDecodeError\<close>, the one exception that \<open>parse\<close> catches; or it
  raises another exception, which \<open>parse\<close> does not catch.
\<close>

datatype decoded = Decoded pydict | JSONDecodeError | Raises error

type_synonym decoder = "pystr \<Rightarrow> decoded"

text \<open>The variables of \<open>parse\<close> that the loop over the lines updates.\<close>

record scan =
  events :: "pydict list"
  result_message :: "pydict option"
  last_assistant_message :: "pydict option"
  system_message :: "pydict option"

definition scan_init :: scan where
  "scan_init = \<lparr>events = [], result_message = None, last_assistant_message = None,
                 system_message = None\<rparr>"

text \<open>\<open>[line.strip() for line in stdout.splitlines() if line.strip()]\<close>\<close>

definition nonblank_lines :: "pystr \<Rightarrow> pystr list" where
  "nonblank_lines stdout = map strip (filter (\<lambda>line. strip line \<noteq> []) (splitlines stdout))"

text \<open>
  One round of \<open>for line in lines\<close>: the updated variables, or the exception that the
  decoder raised and the \<open>try\<close> did not catch.
\<close>

definition scan_line :: "decoder \<Rightarrow> scan \<Rightarrow> pystr \<Rightarrow> error + scan" where
  "scan_line loads st line =
     (if \<not> startswith line (str ''{'') then Inr st
      else case loads line of
        JSONDecodeError \<Rightarrow> Inr st
      | Raises e \<Rightarrow> Inl e
      | Decoded event \<Rightarrow>
          (let st' = st\<lparr>events := events st @ [event]\<rparr>;
               event_type = get event (str ''type'')
           in if event_type = JStr (str ''result'') then Inr (st'\<lparr>result_message := Some event\<rparr>)
              else if event_type = JStr (str ''assistant'')
                then Inr (st'\<lparr>last_assistant_message := Some event\<rparr>)
              else if event_type = JStr (str ''system'')
                then Inr (st'\<lparr>system_message := Some event\<rparr>)
              else Inr st'))"

text \<open>The loop: an exception ends it, and the remaining lines are not read.\<close>

fun scan_lines_from :: "decoder \<Rightarrow> scan \<Rightarrow> pystr list \<Rightarrow> error + scan" where
  "scan_lines_from loads st [] = Inr st"
| "scan_lines_from loads st (line # lines) =
     (case scan_line loads st line of
        Inl e \<Rightarrow> Inl e
      | Inr st' \<Rightarrow> scan_lines_from loads st' lines)"

definition scan_lines :: "decoder \<Rightarrow> pystr list \<Rightarrow> error + scan" where
  "scan_lines loads lines = scan_lines_from loads scan_init lines"

text \<open>\<open>metadata = {"raw_events": events}\<close> and the harvest from the system message.\<close>

definition build_metadata :: "scan \<Rightarrow> pymeta" where
  "build_metadata st =
     (let md = [str ''raw_events'' \<mapsto> JList (map JObj (events st))] in
      case system_message st of
        None \<Rightarrow> md
      | Some sm \<Rightarrow>
          if sm = [] then md
          else
            (let md1 = md(str ''session_id'' \<mapsto> get sm (str ''session_id''));
                 md2 = md1(str ''model'' \<mapsto> get sm (str ''model''))
             in if has_key sm (str ''qwen_code_version'')
                then md2(str ''cli_version'' \<mapsto> get sm (str ''qwen_code_version''))
                else md2))"

text \<open>
  The harvest from the result message, block by block: \<open>usage\<close>, \<open>modelUsage\<close>,
  \<open>permission_denials\<close>, and the check for an error result, which also yields the
  list \<open>errors\<close>.
\<close>

definition harvest_usage :: "pydict \<Rightarrow> pymeta \<Rightarrow> pymeta" where
  "harvest_usage rm md =
     (case get rm (str ''usage'') of
        JObj usage \<Rightarrow> md(str ''usage'' \<mapsto> JObj usage)
      | _ \<Rightarrow> md)"

definition harvest_model_usage :: "pydict \<Rightarrow> pymeta \<Rightarrow> pymeta" where
  "harvest_model_usage rm md =
     (case get rm (str ''modelUsage'') of
        JObj model_usage \<Rightarrow>
          (case model_usage of
             [] \<Rightarrow> md
           | (first_model, _) # _ \<Rightarrow>
               md(str ''model_usage'' \<mapsto> JObj model_usage,
                  str ''model_used'' \<mapsto> JStr first_model))
      | _ \<Rightarrow> md)"

definition harvest_permission_denials :: "pydict \<Rightarrow> pymeta \<Rightarrow> pymeta" where
  "harvest_permission_denials rm md =
     (case get rm (str ''permission_denials'') of
        JList permission_denials \<Rightarrow>
          if permission_denials \<noteq> []
          then md(str ''permission_denials'' \<mapsto> JList permission_denials)
          else md
      | _ \<Rightarrow> md)"

definition harvest_error :: "pydict \<Rightarrow> pymeta \<Rightarrow> pymeta \<times> json list" where
  "harvest_error rm md =
     (if truthy (get rm (str ''is_error'')) then
        (case get rm (str ''error'') of
           JObj error_info \<Rightarrow>
             (md(str ''error'' \<mapsto> JObj error_info),
              [get_default error_info (str ''message'') (JStr (str ''Unknown error''))])
         | _ \<Rightarrow> (md, []))
      else (md, []))"

definition harvest_result :: "pydict \<Rightarrow> pymeta \<Rightarrow> pymeta \<times> json list" where
  "harvest_result rm md0 =
     (let md1 = md0(str ''is_error'' \<mapsto> get_default rm (str ''is_error'') (JBool False));
          md2 = md1(str ''num_turns'' \<mapsto> get rm (str ''num_turns''));
          md3 = md2(str ''duration_ms'' \<mapsto> get rm (str ''duration_ms''));
          md4 = md3(str ''duration_api_ms'' \<mapsto> get rm (str ''duration_api_ms''));
          md5 = harvest_usage rm md4;
          md6 = harvest_model_usage rm md5;
          md7 = harvest_permission_denials rm md6
      in harvest_error rm md7)"

text \<open>\<open>result_text\<close> when it is a string that strips non-empty: its stripped text.\<close>

definition result_content :: "pydict \<Rightarrow> pystr option" where
  "result_content rm =
     (case get rm (str ''result'') of
        JStr result_text \<Rightarrow> if strip result_text \<noteq> [] then Some (strip result_text) else None
      | _ \<Rightarrow> None)"

text \<open>\<open>if stderr and stderr.strip(): metadata["stderr"] = stderr.strip()\<close>\<close>

definition attach_stderr :: "pystr \<Rightarrow> pymeta \<Rightarrow> pymeta" where
  "attach_stderr stderr md =
     (if stderr \<noteq> [] \<and> strip stderr \<noteq> [] then md(str ''stderr'' \<mapsto> JStr (strip stderr))
      else md)"

text \<open>One round of \<open>for block in content_blocks\<close> in \<open>_extract_assistant_text\<close>.\<close>

definition append_block :: "pystr list \<Rightarrow> json \<Rightarrow> pystr list" where
  "append_block text_parts block =
     (case block of
        JObj b \<Rightarrow>
          (let block_type = get b (str ''type'') in
           if block_type = JStr (str ''text'') then
             (case get b (str ''text'') of
                JStr text \<Rightarrow>
                  if strip text \<noteq> [] then text_parts @ [strip text] else text_parts
              | _ \<Rightarrow> text_parts)
           else if block_type = JStr (str ''thinking'') then
             (case get b (str ''thinking'') of
                JStr thinking \<Rightarrow>
                  if strip thinking \<noteq> []
                  then text_parts @ [str ''[Thinking: '' @ strip thinking @ str '']'']
                  else text_parts
              | _ \<Rightarrow> text_parts)
           else text_parts)
      | _ \<Rightarrow> text_parts)"

definition extract_assistant_text :: "pydict \<Rightarrow> pystr option" where
  "extract_assistant_text assistant_msg =
     (case get assistant_msg (str ''message'') of
        JObj message \<Rightarrow>
          (case get message (str ''content'') of
             JList content_blocks \<Rightarrow>
               (let text_parts = foldl append_block [] content_blocks in
                if text_parts \<noteq> [] then Some (join [10, 10] text_parts) else None)
           | _ \<Rightarrow> None)
      | _ \<Rightarrow> None)"

text \<open>\<open>"\n".join(errors)\<close>: \<open>TypeError\<close> unless every item is a string.\<close>

fun str_items :: "json list \<Rightarrow> pystr list option" where
  "str_items [] = Some []"
| "str_items (JStr s # xs) = map_option ((#) s) (str_items xs)"
| "str_items (_ # xs) = None"

definition join_errors :: "json list \<Rightarrow> error + pystr" where
  "join_errors errors =
     (case str_items errors of None \<Rightarrow> Inl TypeError | Some ss \<Rightarrow> Inr (join [10] ss))"

definition qwen_placeholder :: pystr where
  "qwen_placeholder =
     str ''Qwen CLI returned no textual result. Raw stderr was preserved for troubleshooting.''"

definition qwen_empty_stdout :: pystr where
  "qwen_empty_stdout =
     str ''Qwen CLI returned empty stdout while stream-json output was expected''"

definition qwen_no_result :: pystr where
  "qwen_no_result =
     str ''Qwen CLI stream-json output did not contain a result or assistant message''"

text \<open>The part of \<open>parse\<close> after the loop: metadata, then the chain of returns.\<close>

definition select_content :: "scan \<Rightarrow> pystr \<Rightarrow> error + ParsedCLIResponse" where
  "select_content st stderr =
     (let md0 = build_metadata st;
          (md, errors) =
            (case result_message st of
               None \<Rightarrow> (md0, [])
             | Some rm \<Rightarrow> if rm = [] then (md0, []) else harvest_result rm md0);
          from_result =
            (case result_message st of
               None \<Rightarrow> None
             | Some rm \<Rightarrow> if rm = [] then None else result_content rm);
          from_assistant =
            (case last_assistant_message st of
               None \<Rightarrow> None
             | Some am \<Rightarrow>
                 if am = [] then None
                 else (case extract_assistant_text am of
                         None \<Rightarrow> None
                       | Some c \<Rightarrow> if c \<noteq> [] then Some c else None))
      in case from_result of
           Some c \<Rightarrow> Inr \<lparr>content = c, metadata = attach_stderr stderr md\<rparr>
         | None \<Rightarrow>
             (case from_assistant of
                Some c \<Rightarrow> Inr \<lparr>content = c, metadata = attach_stderr stderr md\<rparr>
              | None \<Rightarrow>
                  if errors \<noteq> [] then
                    (case join_errors errors of
                       Inl e \<Rightarrow> Inl e
                     | Inr c \<Rightarrow> Inr \<lparr>content = c, metadata = attach_stderr stderr md\<rparr>)
                  else if stderr \<noteq> [] \<and> strip stderr \<noteq> [] then
                    Inr \<lparr>content = qwen_placeholder,
                         metadata = md(str ''stderr'' \<mapsto> JStr (strip stderr))\<rparr>
                  else Inl (ParserError qwen_no_result)))"

definition qwen_parse :: "decoder \<Rightarrow> pystr \<Rightarrow> pystr \<Rightarrow> error + ParsedCLIResponse" where
  "qwen_parse loads stdout stderr =
     (if strip stdout = [] then Inl (ParserError qwen_empty_stdout)
      else case scan_lines loads (nonblank_lines stdout) of
        Inl e \<Rightarrow> Inl e
      | Inr st \<Rightarrow> select_content st stderr)"


section \<open>Notions of the specification\<close>

text \<open>
  The events of a stream: the objects obtained by decoding, in line order, those lines
  that start with \<open>{\<close> and decode without error.
\<close>

fun decoded_objects :: "decoder \<Rightarrow> pystr list \<Rightarrow> pydict list" where
  "decoded_objects loads [] = []"
| "decoded_objects loads (line # lines) =
     (if startswith line (str ''{'') then
        (case loads line of
           Decoded event \<Rightarrow> event # decoded_objects loads lines
         | _ \<Rightarrow> decoded_objects loads lines)
      else decoded_objects loads lines)"

definition stream_events :: "decoder \<Rightarrow> pystr \<Rightarrow> pydict list" where
  "stream_events loads stdout = decoded_objects loads (nonblank_lines stdout)"

text \<open>The last event, in line order, whose \<open>type\<close> field is the string \<open>t\<close>.\<close>

definition has_type :: "pystr \<Rightarrow> pydict \<Rightarrow> bool" where
  "has_type t event = (get event (str ''type'') = JStr t)"

definition last_of_type :: "pystr \<Rightarrow> pydict list \<Rightarrow> pydict option" where
  "last_of_type t evs = List.find (has_type t) (rev evs)"

text \<open>
  The exception other than \<open>JSONDecodeError\<close> that the decoder raises first, in line
  order, on a line that starts with \<open>{\<close>; \<open>None\<close> when it raises none.
\<close>

fun first_raised :: "decoder \<Rightarrow> pystr list \<Rightarrow> error option" where
  "first_raised loads [] = None"
| "first_raised loads (line # lines) =
     (if startswith line (str ''{'') then
        (case loads line of
           Raises e \<Rightarrow> Some e
         | _ \<Rightarrow> first_raised loads lines)
      else first_raised loads lines)"

text \<open>The object a call of the decoder returned, if it returned.\<close>

definition returned :: "decoded \<Rightarrow> pydict option" where
  "returned d = (case d of Decoded event \<Rightarrow> Some event | _ \<Rightarrow> None)"

text \<open>The variables after the loop in terms of the events of the stream.\<close>

definition scanned :: "decoder \<Rightarrow> pystr \<Rightarrow> scan" where
  "scanned loads stdout =
     \<lparr>events = stream_events loads stdout,
      result_message = last_of_type (str ''result'') (stream_events loads stdout),
      last_assistant_message = last_of_type (str ''assistant'') (stream_events loads stdout),
      system_message = last_of_type (str ''system'') (stream_events loads stdout)\<rparr>"

text \<open>What the three sources of content yield for the remembered events.\<close>

definition result_text_of :: "pydict option \<Rightarrow> pystr option" where
  "result_text_of r = (case r of None \<Rightarrow> None | Some rm \<Rightarrow> result_content rm)"

definition assistant_text_of :: "pydict option \<Rightarrow> pystr option" where
  "assistant_text_of a = (case a of None \<Rightarrow> None | Some am \<Rightarrow> extract_assistant_text am)"

definition collected_errors :: "pydict option \<Rightarrow> json list" where
  "collected_errors r = (case r of None \<Rightarrow> [] | Some rm \<Rightarrow> snd (harvest_error rm Map.empty))"

text \<open>
  The part a content block contributes: a \<open>text\<close> block its trimmed text, a
  \<open>thinking\<close> block its trimmed text in brackets; a text that is no string or trims
  to nothing contributes no part.
\<close>

definition trimmed_text :: "json \<Rightarrow> pystr list" where
  "trimmed_text j = (case j of JStr s \<Rightarrow> if strip s \<noteq> [] then [strip s] else [] | _ \<Rightarrow> [])"

definition block_parts :: "json \<Rightarrow> pystr list" where
  "block_parts block =
     (case block of
        JObj b \<Rightarrow>
          if has_type (str ''text'') b then trimmed_text (get b (str ''text''))
          else if has_type (str ''thinking'') b then
            map (\<lambda>t. str ''[Thinking: '' @ t @ str '']'') (trimmed_text (get b (str ''thinking'')))
          else []
      | _ \<Rightarrow> [])"

text \<open>An outcome of \<open>parse\<close> with the key \<open>raw_events\<close> left out of the metadata.\<close>

definition without_raw_events ::
  "error + ParsedCLIResponse \<Rightarrow> error + pystr \<times> pymeta" where
  "without_raw_events outcome =
     (case outcome of
        Inl e \<Rightarrow> Inl e
      | Inr r \<Rightarrow> Inr (content r, (metadata r)(str ''raw_events'' := None)))"

text \<open>The metadata after the harvest from the system and the result message.\<close>

definition harvested :: "scan \<Rightarrow> pymeta" where
  "harvested st =
     (case result_message st of
        None \<Rightarrow> build_metadata st
      | Some rm \<Rightarrow> fst (harvest_result rm (build_metadata st)))"

section \<open>Sample streams\<close>

text \<open>
  Four lines of a stream and the objects \<open>json.loads\<close> returns for them, and a line
  with an integer of 5000 digits, on which \<open>json.loads\<close> raises \<open>ValueError\<close>;
  \<open>sample_loads\<close> is the decoder on these lines and raises \<open>JSONDecodeError\<close> on every
  other line.  The streams built from them also hold a banner, a blank line and a line
  that starts with \<open>{\<close> but does not decode.
\<close>

definition line_system :: pystr where
  \<open>line_system = str ''{"type":"system","model":"qwen-coder"}''\<close>

definition event_system :: pydict where
  "event_system = [(str ''type'', JStr (str ''system'')), (str ''model'', JStr (str ''qwen-coder''))]"

definition line_assistant :: pystr where
  \<open>line_assistant =
     str ''{"type":"assistant","message":{"content":[{"type":"thinking","thinking":" plan "},{"type":"text","text":"42"}]}}''\<close>

definition event_assistant :: pydict where
  "event_assistant =
     [(str ''type'', JStr (str ''assistant'')),
      (str ''message'', JObj [(str ''content'', JList
         [JObj [(str ''type'', JStr (str ''thinking'')), (str ''thinking'', JStr (str '' plan ''))],
          JObj [(str ''type'', JStr (str ''text'')), (str ''text'', JStr (str ''42''))]])])]"

definition line_result :: pystr where
  \<open>line_result = str ''{"type":"result","result":" Done. "}''\<close>

definition event_result :: pydict where
  "event_result = [(str ''type'', JStr (str ''result'')), (str ''result'', JStr (str '' Done. ''))]"

definition line_result_old :: pystr where
  \<open>line_result_old = str ''{"type":"result","result":"Old"}''\<close>

definition event_result_old :: pydict where
  "event_result_old = [(str ''type'', JStr (str ''result'')), (str ''result'', JStr (str ''Old''))]"

definition huge_digits :: pystr where
  "huge_digits = replicate 5000 (of_char CHR ''1'')"

definition line_huge :: pystr where
  \<open>line_huge = str ''{"n":'' @ huge_digits @ str ''}''\<close>

definition sample_loads :: decoder where
  "sample_loads line =
     (if line = line_huge then Raises ValueError
      else if line = line_system then Decoded event_system
      else if line = line_assistant then Decoded event_assistant
      else if line = line_result then Decoded event_result
      else if line = line_result_old then Decoded event_result_old
      else JSONDecodeError)"

definition stream_full :: pystr where
  "stream_full =
     str ''banner'' @ [10] @ line_system @ [10] @ str '' { broken'' @ [10] @ line_result_old @
     [10, 10] @ line_assistant @ [13, 10] @ line_result @ [10]"

definition stream_short :: pystr where
  "stream_short = line_system @ [10] @ line_assistant @ [10] @ line_result"

definition stream_assistant :: pystr where
  "stream_assistant = line_system @ [10, 10] @ line_assistant"

definition stream_system :: pystr where
  "stream_system = line_system"

definition stream_result_huge :: pystr where
  "stream_result_huge = line_result @ [10] @ line_huge"

definition stream_assistant_huge :: pystr where
  "stream_assistant_huge = line_assistant @ [10] @ line_huge"

definition stream_huge :: pystr where
  "stream_huge = line_huge"

definition sample_agent :: BaseCLIAgent where
  "sample_agent = \<lparr>agent_parser = CopilotPlaintextParser\<rparr>"

section \<open>Auxiliary facts\<close>

subsection \<open>Strings\<close>

lemma str_eq_iff [simp]: "str a = str b \<longleftrightarrow> a = b"
  unfolding str_def by (metis inj_map_eq_map inj_of_char)

lemma str_Nil_iff [simp]: "str a = [] \<longleftrightarrow> a = []"
  by (simp add: str_def)

lemma strip_Nil [simp]: "strip [] = []"
  by (simp add: strip_def)

lemma strip_Nil_iff: "strip s = [] \<longleftrightarrow> (\<forall>c\<in>set s. is_space c)"
proof
  assume "strip s = []"
  then have all_rev: "\<forall>c\<in>set (dropWhile is_space s). is_space c"
    by (simp add: strip_def dropWhile_eq_Nil_conv)
  show "\<forall>c\<in>set s. is_space c"
  proof (cases "dropWhile is_space s")
    case Nil
    then show ?thesis by (simp add: dropWhile_eq_Nil_conv)
  next
    case (Cons c cs)
    then have "\<not> is_space c" using hd_dropWhile [of is_space s] by simp
    with all_rev Cons show ?thesis by simp
  qed
next
  assume "\<forall>c\<in>set s. is_space c"
  then have "\<forall>c\<in>set (dropWhile is_space s). is_space c" by (auto dest: set_dropWhileD)
  then show "strip s = []" by (simp add: strip_def)
qed

lemma stderr_test: "(stderr \<noteq> [] \<and> strip stderr \<noteq> []) \<longleftrightarrow> strip stderr \<noteq> []"
  by auto

lemma splitlines_from_chars:
  "line \<in> set (splitlines_from cur s) \<Longrightarrow> set line \<subseteq> set cur \<union> set s"
  by (induction cur s rule: splitlines_from.induct) (auto split: if_splits)

lemma blank_no_lines: "strip stdout = [] \<Longrightarrow> nonblank_lines stdout = []"
proof -
  assume blank: "strip stdout = []"
  have "strip line = []" if "line \<in> set (splitlines stdout)" for line
  proof -
    from that have "set line \<subseteq> set stdout"
      using splitlines_from_chars [of line "[]" stdout] by (simp add: splitlines_def)
    with blank show ?thesis by (auto simp: strip_Nil_iff)
  qed
  then show ?thesis by (simp add: nonblank_lines_def filter_empty_conv)
qed

lemma strip_clean:
  assumes "s \<noteq> []" and "\<not> is_space (hd s)" and "\<not> is_space (last s)"
  shows "strip s = s"
proof -
  from assms(1,2) have front: "dropWhile is_space s = s"
    by (simp add: dropWhile_eq_self_iff)
  from assms(1,3) have "dropWhile is_space (rev s) = rev s"
    by (simp add: dropWhile_eq_self_iff hd_rev)
  with front show ?thesis by (simp add: strip_def)
qed

lemma splitlines_from_line:
  assumes "\<forall>c\<in>set s. \<not> is_linebreak c"
  shows "splitlines_from cur (s @ 10 # rest) = (cur @ s) # splitlines_from [] rest"
  using assms
proof (induction s arbitrary: cur)
  case Nil
  show ?case by (cases rest) (simp_all add: is_linebreak_def)
next
  case (Cons c s)
  from Cons.prems have c: "\<not> is_linebreak c" and s: "\<forall>c\<in>set s. \<not> is_linebreak c"
    by simp_all
  from c have "c \<noteq> 13" by (auto simp: is_linebreak_def)
  moreover obtain d ds where "s @ 10 # rest = d # ds" by (cases "s @ 10 # rest") simp_all
  ultimately show ?case using c Cons.IH [OF s, of "cur @ [c]"] by simp
qed

lemma splitlines_from_last:
  assumes "\<forall>c\<in>set s. \<not> is_linebreak c"
  shows "splitlines_from cur s = (if cur @ s = [] then [] else [cur @ s])"
  using assms
proof (induction s arbitrary: cur)
  case Nil
  show ?case by simp
next
  case (Cons c s)
  from Cons.prems have c: "\<not> is_linebreak c" and s: "\<forall>c\<in>set s. \<not> is_linebreak c"
    by simp_all
  from c have "c \<noteq> 13" by (auto simp: is_linebreak_def)
  then show ?case using c Cons.IH [OF s, of "cur @ [c]"] by (cases s) simp_all
qed

lemma nonblank_lines_single:
  assumes "a \<noteq> []" "\<not> is_space (hd a)" "\<not> is_space (last a)"
    and "\<forall>c\<in>set a. \<not> is_linebreak c"
  shows "nonblank_lines a = [a]"
  using assms by (simp add: nonblank_lines_def splitlines_def splitlines_from_last strip_clean)

lemma nonblank_lines_pair:
  assumes "a \<noteq> []" "\<not> is_space (hd a)" "\<not> is_space (last a)"
    and "\<forall>c\<in>set a. \<not> is_linebreak c"
    and "b \<noteq> []" "\<not> is_space (hd b)" "\<not> is_space (last b)"
    and "\<forall>c\<in>set b. \<not> is_linebreak c"
  shows "nonblank_lines (a @ [10] @ b) = [a, b]"
  using assms
  by (simp add: nonblank_lines_def splitlines_def splitlines_from_line splitlines_from_last
      strip_clean)

lemma join_nonempty:
  assumes "hd xs \<noteq> []" and "xs \<noteq> []"
  shows "join sep xs \<noteq> []"
proof (cases xs)
  case Nil
  with assms show ?thesis by simp
next
  case (Cons x ys)
  with assms show ?thesis by (cases ys) auto
qed

subsection \<open>The loop over the lines\<close>

lemma decoded_objects_filter:
  "decoded_objects loads lines =
     map (\<lambda>line. the (returned (loads line)))
       (filter (\<lambda>line. startswith line (str ''{'') \<and> returned (loads line) \<noteq> None) lines)"
  by (induction lines) (auto simp: returned_def split: decoded.splits)

lemma find_snoc:
  "List.find P (xs @ [x]) =
     (case List.find P xs of Some y \<Rightarrow> Some y | None \<Rightarrow> if P x then Some x else None)"
  by (induction xs) auto

lemma last_of_type_Cons:
  "last_of_type t (e # evs) =
     (case last_of_type t evs of
        Some x \<Rightarrow> Some x
      | None \<Rightarrow> if has_type t e then Some e else None)"
  by (simp add: last_of_type_def find_snoc)

lemma last_of_type_Nil [simp]: "last_of_type t [] = None"
  by (simp add: last_of_type_def)

text \<open>
  The loop from any state: it raises what the decoder raises first; otherwise it appends
  the decoded objects to the events and overwrites each remembered message by the last
  event of its type.
\<close>

lemma scan_lines_from_eq:
  "scan_lines_from loads st lines =
     (case first_raised loads lines of
        Some e \<Rightarrow> Inl e
      | None \<Rightarrow>
          Inr \<lparr>events = events st @ decoded_objects loads lines,
               result_message =
                 (case last_of_type (str ''result'') (decoded_objects loads lines) of
                    None \<Rightarrow> result_message st | Some e \<Rightarrow> Some e),
               last_assistant_message =
                 (case last_of_type (str ''assistant'') (decoded_objects loads lines) of
                    None \<Rightarrow> last_assistant_message st | Some e \<Rightarrow> Some e),
               system_message =
                 (case last_of_type (str ''system'') (decoded_objects loads lines) of
                    None \<Rightarrow> system_message st | Some e \<Rightarrow> Some e)\<rparr>)"
proof (induction lines arbitrary: st)
  case Nil
  show ?case by simp
next
  case (Cons line lines)
  show ?case
  proof (cases "startswith line (str ''{'')")
    case False
    then show ?thesis by (simp add: scan_line_def Cons.IH cong: option.case_cong)
  next
    case True
    show ?thesis
    proof (cases "loads line")
      case (Decoded event)
      with True show ?thesis
        by (simp add: scan_line_def Let_def Cons.IH last_of_type_Cons has_type_def
            cong: option.case_cong split: option.split)
    next
      case JSONDecodeError
      with True show ?thesis by (simp add: scan_line_def Cons.IH cong: option.case_cong)
    next
      case (Raises e)
      with True show ?thesis by (simp add: scan_line_def)
    qed
  qed
qed

lemma scan_lines_eq:
  "scan_lines loads (nonblank_lines stdout) =
     (case first_raised loads (nonblank_lines stdout) of
        Some e \<Rightarrow> Inl e
      | None \<Rightarrow> Inr (scanned loads stdout))"
  by (simp add: scan_lines_def scan_lines_from_eq scan_init_def scanned_def stream_events_def
      split: option.split)

lemma last_of_type_has_type: "last_of_type t evs = Some e \<Longrightarrow> has_type t e"
  by (auto simp: last_of_type_def find_Some_iff)

lemma has_type_nonempty: "has_type t e \<Longrightarrow> e \<noteq> []"
  by (auto simp: has_type_def get_def get_default_def)

lemma last_of_type_nonempty: "last_of_type t evs = Some e \<Longrightarrow> e \<noteq> []"
  by (blast dest: last_of_type_has_type has_type_nonempty)

lemma events_nonblank:
  assumes "last_of_type t (stream_events loads stdout) = Some e"
  shows "strip stdout \<noteq> []"
proof
  assume "strip stdout = []"
  then have "stream_events loads stdout = []"
    by (simp add: stream_events_def blank_no_lines)
  with assms show False by simp
qed

subsection \<open>The assistant text\<close>

lemma append_block_eq: "append_block text_parts block = text_parts @ block_parts block"
  by (simp add: append_block_def block_parts_def trimmed_text_def has_type_def Let_def
      split: json.split)

lemma foldl_append_block:
  "foldl append_block text_parts blocks = text_parts @ concat (map block_parts blocks)"
  by (induction blocks arbitrary: text_parts) (simp_all add: append_block_eq)

lemma block_parts_nonempty: "part \<in> set (block_parts block) \<Longrightarrow> part \<noteq> []"
  by (auto simp: block_parts_def trimmed_text_def split: json.splits if_splits)

lemma extract_assistant_text_nonempty:
  assumes "extract_assistant_text am = Some c"
  shows "c \<noteq> []"
proof -
  from assms obtain message blocks where
    parts: "concat (map block_parts blocks) \<noteq> []" and
    c: "c = join [10, 10] (concat (map block_parts blocks))"
    by (auto simp: extract_assistant_text_def foldl_append_block Let_def
        split: json.splits if_splits)
  let ?parts = "concat (map block_parts blocks)"
  from parts have "hd ?parts \<in> set ?parts" by (rule hd_in_set)
  then obtain b where "hd ?parts \<in> set (block_parts b)" by auto
  then have "hd ?parts \<noteq> []" by (rule block_parts_nonempty)
  with parts c show ?thesis by (simp add: join_nonempty)
qed

subsection \<open>Metadata, key by key\<close>

lemma build_metadata_raw_events:
  "build_metadata st (str ''raw_events'') = Some (JList (map JObj (events st)))"
  by (simp add: build_metadata_def Let_def split: option.split)

lemma build_metadata_stderr: "build_metadata st (str ''stderr'') = None"
  by (simp add: build_metadata_def Let_def split: option.split)

lemma build_metadata_system:
  assumes "system_message st = Some sm" and "sm \<noteq> []"
  shows "build_metadata st (str ''session_id'') = Some (get sm (str ''session_id''))"
    and "build_metadata st (str ''model'') = Some (get sm (str ''model''))"
    and "build_metadata st (str ''cli_version'') =
           (if has_key sm (str ''qwen_code_version'')
            then Some (get sm (str ''qwen_code_version'')) else None)"
  using assms by (simp_all add: build_metadata_def Let_def)

lemma build_metadata_local:
  "system_message st = system_message st' \<Longrightarrow> k \<noteq> str ''raw_events'' \<Longrightarrow>
   build_metadata st k = build_metadata st' k"
  by (simp add: build_metadata_def Let_def split: option.split)

lemma harvest_usage_keep: "k \<noteq> str ''usage'' \<Longrightarrow> harvest_usage rm md k = md k"
  by (simp add: harvest_usage_def split: json.split)

lemma harvest_usage_local: "md k = md' k \<Longrightarrow> harvest_usage rm md k = harvest_usage rm md' k"
  by (simp add: harvest_usage_def split: json.split)

lemma harvest_model_usage_keep:
  "k \<noteq> str ''model_usage'' \<Longrightarrow> k \<noteq> str ''model_used'' \<Longrightarrow> harvest_model_usage rm md k = md k"
  by (simp add: harvest_model_usage_def split: json.split list.split)

lemma harvest_model_usage_local:
  "md k = md' k \<Longrightarrow> harvest_model_usage rm md k = harvest_model_usage rm md' k"
  by (simp add: harvest_model_usage_def split: json.split list.split)

lemma harvest_permission_denials_keep:
  "k \<noteq> str ''permission_denials'' \<Longrightarrow> harvest_permission_denials rm md k = md k"
  by (simp add: harvest_permission_denials_def split: json.split)

lemma harvest_permission_denials_local:
  "md k = md' k \<Longrightarrow> harvest_permission_denials rm md k = harvest_permission_denials rm md' k"
  by (simp add: harvest_permission_denials_def split: json.split)

lemma harvest_error_keep: "k \<noteq> str ''error'' \<Longrightarrow> fst (harvest_error rm md) k = md k"
  by (simp add: harvest_error_def split: json.split)

lemma harvest_error_local:
  "md k = md' k \<Longrightarrow> fst (harvest_error rm md) k = fst (harvest_error rm md') k"
  by (simp add: harvest_error_def split: json.split)

lemma harvest_error_snd: "snd (harvest_error rm md) = snd (harvest_error rm Map.empty)"
  by (simp add: harvest_error_def split: json.split)

lemma harvest_result_keep:
  assumes "k \<noteq> str ''is_error''" "k \<noteq> str ''num_turns''" "k \<noteq> str ''duration_ms''"
    "k \<noteq> str ''duration_api_ms''" "k \<noteq> str ''usage''" "k \<noteq> str ''model_usage''"
    "k \<noteq> str ''model_used''" "k \<noteq> str ''permission_denials''" "k \<noteq> str ''error''"
  shows "fst (harvest_result rm md) k = md k"
  using assms
  by (simp add: harvest_result_def Let_def harvest_error_keep harvest_permission_denials_keep
      harvest_model_usage_keep harvest_usage_keep)

lemma harvest_result_local:
  assumes "md k = md' k"
  shows "fst (harvest_result rm md) k = fst (harvest_result rm md') k"
  unfolding harvest_result_def Let_def
  by (intro harvest_error_local harvest_permission_denials_local harvest_model_usage_local
      harvest_usage_local) (simp add: assms)

lemma harvest_result_snd: "snd (harvest_result rm md) = collected_errors (Some rm)"
  by (simp add: harvest_result_def Let_def collected_errors_def) (rule harvest_error_snd)

lemma attach_stderr_key:
  "attach_stderr stderr md (str ''stderr'') =
     (if strip stderr \<noteq> [] then Some (JStr (strip stderr)) else md (str ''stderr''))"
  by (auto simp: attach_stderr_def)

lemma attach_stderr_keep: "k \<noteq> str ''stderr'' \<Longrightarrow> attach_stderr stderr md k = md k"
  by (simp add: attach_stderr_def)

lemma attach_stderr_local: "md k = md' k \<Longrightarrow> attach_stderr stderr md k = attach_stderr stderr md' k"
  by (simp add: attach_stderr_def)

subsection \<open>The chain of returns\<close>

lemma select_content_eq:
  assumes "\<forall>rm. result_message st = Some rm \<longrightarrow> rm \<noteq> []"
    and "\<forall>am. last_assistant_message st = Some am \<longrightarrow> am \<noteq> []"
  shows "select_content st stderr =
     (case result_text_of (result_message st) of
        Some c \<Rightarrow> Inr \<lparr>content = c, metadata = attach_stderr stderr (harvested st)\<rparr>
      | None \<Rightarrow>
          (case assistant_text_of (last_assistant_message st) of
             Some c \<Rightarrow> Inr \<lparr>content = c, metadata = attach_stderr stderr (harvested st)\<rparr>
           | None \<Rightarrow>
               if collected_errors (result_message st) \<noteq> [] then
                 (case join_errors (collected_errors (result_message st)) of
                    Inl e \<Rightarrow> Inl e
                  | Inr c \<Rightarrow> Inr \<lparr>content = c, metadata = attach_stderr stderr (harvested st)\<rparr>)
               else if strip stderr \<noteq> [] then
                 Inr \<lparr>content = qwen_placeholder,
                      metadata = (harvested st)(str ''stderr'' \<mapsto> JStr (strip stderr))\<rparr>
               else Inl (ParserError qwen_no_result)))"
proof -
  have harvest:
    "(case result_message st of
        None \<Rightarrow> (build_metadata st, [])
      | Some rm \<Rightarrow> if rm = [] then (build_metadata st, []) else harvest_result rm (build_metadata st)) =
     (harvested st, collected_errors (result_message st))"
  proof (cases "result_message st")
    case None
    then show ?thesis by (simp add: harvested_def collected_errors_def)
  next
    case (Some rm)
    with assms(1) have "rm \<noteq> []" by simp
    with Some show ?thesis
      using harvest_result_snd [of rm "build_metadata st"]
      by (simp add: harvested_def prod_eq_iff)
  qed
  have from_result:
    "(case result_message st of
        None \<Rightarrow> None
      | Some rm \<Rightarrow> if rm = [] then None else result_content rm) =
     result_text_of (result_message st)"
    using assms(1) by (simp add: result_text_of_def split: option.split)
  have from_assistant:
    "(case last_assistant_message st of
        None \<Rightarrow> None
      | Some am \<Rightarrow>
          if am = [] then None
          else (case extract_assistant_text am of
                  None \<Rightarrow> None
                | Some c \<Rightarrow> if c \<noteq> [] then Some c else None)) =
     assistant_text_of (last_assistant_message st)"
    using assms(2)
    by (auto simp: assistant_text_of_def dest: extract_assistant_text_nonempty
        split: option.split)
  show ?thesis
    unfolding select_content_def Let_def harvest from_result from_assistant
    by (simp add: stderr_test split: option.split)
qed

lemma scan_fields:
  "events (scanned loads stdout) = stream_events loads stdout"
  "result_message (scanned loads stdout) =
     last_of_type (str ''result'') (stream_events loads stdout)"
  "last_assistant_message (scanned loads stdout) =
     last_of_type (str ''assistant'') (stream_events loads stdout)"
  "system_message (scanned loads stdout) =
     last_of_type (str ''system'') (stream_events loads stdout)"
  by (simp_all add: scanned_def)

lemma scan_nonempty:
  "\<forall>rm. result_message (scanned loads stdout) = Some rm \<longrightarrow> rm \<noteq> []"
  "\<forall>am. last_assistant_message (scanned loads stdout) = Some am \<longrightarrow> am \<noteq> []"
  "\<forall>sm. system_message (scanned loads stdout) = Some sm \<longrightarrow> sm \<noteq> []"
  by (auto simp: scanned_def dest: last_of_type_nonempty)

lemma harvested_keep:
  assumes "k \<noteq> str ''is_error''" "k \<noteq> str ''num_turns''" "k \<noteq> str ''duration_ms''"
    "k \<noteq> str ''duration_api_ms''" "k \<noteq> str ''usage''" "k \<noteq> str ''model_usage''"
    "k \<noteq> str ''model_used''" "k \<noteq> str ''permission_denials''" "k \<noteq> str ''error''"
  shows "harvested st k = build_metadata st k"
  using assms by (simp add: harvested_def harvest_result_keep split: option.split)

lemma harvested_stderr: "harvested st (str ''stderr'') = None"
  by (simp add: harvested_keep build_metadata_stderr)

lemma harvested_raw_events:
  "harvested st (str ''raw_events'') = Some (JList (map JObj (events st)))"
  by (simp add: harvested_keep build_metadata_raw_events)

lemma harvested_local:
  assumes "result_message st = result_message st'" and "system_message st = system_message st'"
    and "k \<noteq> str ''raw_events''"
  shows "harvested st k = harvested st' k"
  using assms
  by (auto simp: harvested_def build_metadata_local [of st st' k]
      intro: harvest_result_local split: option.split)

lemma outcome_metadata_eq:
  assumes "select_content st stderr = Inr r"
    and "\<forall>rm. result_message st = Some rm \<longrightarrow> rm \<noteq> []"
    and "\<forall>am. last_assistant_message st = Some am \<longrightarrow> am \<noteq> []"
  shows "metadata r = attach_stderr stderr (harvested st)"
proof -
  have placed: "strip stderr \<noteq> [] \<Longrightarrow>
      (harvested st)(str ''stderr'' \<mapsto> JStr (strip stderr)) = attach_stderr stderr (harvested st)"
    by (auto simp: attach_stderr_def)
  from assms(1) show ?thesis
    unfolding select_content_eq [OF assms(2,3)]
    by (auto simp: placed split: option.splits sum.splits if_splits)
qed

lemma outcome_metadata:
  assumes "select_content st stderr = Inr r"
    and "\<forall>rm. result_message st = Some rm \<longrightarrow> rm \<noteq> []"
    and "\<forall>am. last_assistant_message st = Some am \<longrightarrow> am \<noteq> []"
  shows "metadata r k =
     (if k = str ''stderr'' then (if strip stderr \<noteq> [] then Some (JStr (strip stderr)) else None)
      else harvested st k)"
  unfolding outcome_metadata_eq [OF assms]
  by (simp add: attach_stderr_key attach_stderr_keep harvested_stderr)

lemma select_content_without_raw_events:
  assumes "result_message st = result_message st'"
    and "last_assistant_message st = last_assistant_message st'"
    and "system_message st = system_message st'"
    and "\<forall>rm. result_message st = Some rm \<longrightarrow> rm \<noteq> []"
    and "\<forall>am. last_assistant_message st = Some am \<longrightarrow> am \<noteq> []"
  shows "without_raw_events (select_content st stderr) =
         without_raw_events (select_content st' stderr)"
proof -
  have local: "harvested st k = harvested st' k" if "k \<noteq> str ''raw_events''" for k
    using assms(1,3) that by (rule harvested_local)
  have attached:
    "(attach_stderr stderr (harvested st))(str ''raw_events'' := None) =
     (attach_stderr stderr (harvested st'))(str ''raw_events'' := None)"
    by (rule ext) (simp add: local attach_stderr_def)
  have placed:
    "((harvested st)(str ''stderr'' \<mapsto> v))(str ''raw_events'' := None) =
     ((harvested st')(str ''stderr'' \<mapsto> v))(str ''raw_events'' := None)" for v
    by (rule ext) (simp add: local)
  obtain r a where r: "result_message st = r" "result_message st' = r"
    and a: "last_assistant_message st = a" "last_assistant_message st' = a"
    using assms(1,2) by simp
  from assms(4,5) r a have nonempty':
    "\<forall>rm. result_message st' = Some rm \<longrightarrow> rm \<noteq> []"
    "\<forall>am. last_assistant_message st' = Some am \<longrightarrow> am \<noteq> []"
    by simp_all
  show ?thesis
    unfolding select_content_eq [OF assms(4,5)] select_content_eq [OF nonempty'] r a
    using attached placed
    by (simp add: without_raw_events_def split: option.split sum.split)
qed

subsection \<open>The parser as a whole\<close>

lemma qwen_parse_nonblank:
  "strip stdout \<noteq> [] \<Longrightarrow>
   qwen_parse loads stdout stderr =
     (case first_raised loads (nonblank_lines stdout) of
        Some e \<Rightarrow> Inl e
      | None \<Rightarrow> select_content (scanned loads stdout) stderr)"
  by (simp add: qwen_parse_def scan_lines_eq split: option.split)

lemma qwen_parse_raises:
  "strip stdout \<noteq> [] \<Longrightarrow> first_raised loads (nonblank_lines stdout) = Some e \<Longrightarrow>
   qwen_parse loads stdout stderr = Inl e"
  by (simp add: qwen_parse_nonblank)

lemma qwen_parse_Inr:
  assumes "qwen_parse loads stdout stderr = Inr r"
  shows "strip stdout \<noteq> []" and "first_raised loads (nonblank_lines stdout) = None"
    and "select_content (scanned loads stdout) stderr = Inr r"
proof -
  from assms show nonblank: "strip stdout \<noteq> []"
    by (auto simp: qwen_parse_def split: if_splits)
  from assms show "first_raised loads (nonblank_lines stdout) = None"
    unfolding qwen_parse_nonblank [OF nonblank] by (auto split: option.splits)
  with assms show "select_content (scanned loads stdout) stderr = Inr r"
    unfolding qwen_parse_nonblank [OF nonblank] by simp
qed

lemma qwen_parse_eq:
  assumes "strip stdout \<noteq> []" and "first_raised loads (nonblank_lines stdout) = None"
  shows "qwen_parse loads stdout stderr =
     (let st = scanned loads stdout;
          r = last_of_type (str ''result'') (stream_events loads stdout);
          a = last_of_type (str ''assistant'') (stream_events loads stdout)
      in case result_text_of r of
        Some c \<Rightarrow> Inr \<lparr>content = c, metadata = attach_stderr stderr (harvested st)\<rparr>
      | None \<Rightarrow>
          (case assistant_text_of a of
             Some c \<Rightarrow> Inr \<lparr>content = c, metadata = attach_stderr stderr (harvested st)\<rparr>
           | None \<Rightarrow>
               if collected_errors r \<noteq> [] then
                 (case join_errors (collected_errors r) of
                    Inl e \<Rightarrow> Inl e
                  | Inr c \<Rightarrow> Inr \<lparr>content = c, metadata = attach_stderr stderr (harvested st)\<rparr>)
               else if strip stderr \<noteq> [] then
                 Inr \<lparr>content = qwen_placeholder,
                      metadata = (harvested st)(str ''stderr'' \<mapsto> JStr (strip stderr))\<rparr>
               else Inl (ParserError qwen_no_result)))"
  unfolding qwen_parse_nonblank [OF assms(1)] assms(2) option.case
    select_content_eq [OF scan_nonempty(1,2)] scan_fields
  by (simp add: Let_def)

lemma qwen_parse_metadata:
  assumes "qwen_parse loads stdout stderr = Inr r"
  shows "metadata r k =
     (if k = str ''stderr'' then (if strip stderr \<noteq> [] then Some (JStr (strip stderr)) else None)
      else harvested (scanned loads stdout) k)"
  using qwen_parse_Inr(3) [OF assms] by (rule outcome_metadata [OF _ scan_nonempty(1,2)])

lemma result_content_eq:
  "get rm (str ''result'') = JStr text \<Longrightarrow> strip text \<noteq> [] \<Longrightarrow>
   result_content rm = Some (strip text)"
  by (simp add: result_content_def)

lemma extract_assistant_text_eq:
  assumes "get am (str ''message'') = JObj message"
    and "get message (str ''content'') = JList blocks"
  shows "extract_assistant_text am =
     (if concat (map block_parts blocks) \<noteq> []
      then Some (join [10, 10] (concat (map block_parts blocks))) else None)"
  using assms by (simp add: extract_assistant_text_def foldl_append_block Let_def)

subsection \<open>The sample streams, evaluated\<close>

lemma strip_samples:
  "strip (str '' Done. '') = str ''Done.''"
  "strip (str '' warn '') = str ''warn''"
  "strip (str ''oops'') = str ''oops''"
  "strip (str '' plan '') = str ''plan''"
  "strip (str ''42'') = str ''42''"
  "strip [32, 10] = []"
  by (simp_all add: strip_def str_def is_space_def)

lemma sample_lines:
  "nonblank_lines stream_full =
     [str ''banner'', line_system, str ''{ broken'', line_result_old, line_assistant,
      line_result]"
  "nonblank_lines stream_short = [line_system, line_assistant, line_result]"
  "nonblank_lines stream_assistant = [line_system, line_assistant]"
  "nonblank_lines stream_system = [line_system]"
  by (simp_all add: nonblank_lines_def splitlines_def stream_full_def stream_short_def
      stream_assistant_def stream_system_def line_system_def line_result_old_def
      line_assistant_def line_result_def str_def strip_def is_space_def is_linebreak_def)

lemma huge_digits:
  "length huge_digits = 5000" "set huge_digits = {49}"
  by (simp_all add: huge_digits_def)

lemma line_huge_clean:
  "line_huge \<noteq> []" "\<not> is_space (hd line_huge)" "\<not> is_space (last line_huge)"
  "\<forall>c\<in>set line_huge. \<not> is_linebreak c"
  "length line_huge = 5006" "startswith line_huge (str ''{'')"
  by (simp_all add: line_huge_def huge_digits str_def is_space_def is_linebreak_def
      startswith_def)

lemma sample_lines_clean:
  "line_result \<noteq> []" "\<not> is_space (hd line_result)" "\<not> is_space (last line_result)"
  "\<forall>c\<in>set line_result. \<not> is_linebreak c"
  "line_assistant \<noteq> []" "\<not> is_space (hd line_assistant)"
  "\<not> is_space (last line_assistant)" "\<forall>c\<in>set line_assistant. \<not> is_linebreak c"
  by (simp_all add: line_result_def line_assistant_def str_def is_space_def is_linebreak_def)

lemma sample_lines_huge:
  "nonblank_lines stream_result_huge = [line_result, line_huge]"
  "nonblank_lines stream_assistant_huge = [line_assistant, line_huge]"
  "nonblank_lines stream_huge = [line_huge]"
  unfolding stream_result_huge_def stream_assistant_huge_def stream_huge_def
  by (rule nonblank_lines_pair [OF sample_lines_clean(1-4) line_huge_clean(1-4)],
      rule nonblank_lines_pair [OF sample_lines_clean(5-8) line_huge_clean(1-4)],
      rule nonblank_lines_single [OF line_huge_clean(1-4)])

lemma line_huge_distinct:
  "line_system \<noteq> line_huge" "line_assistant \<noteq> line_huge" "line_result \<noteq> line_huge"
  "line_result_old \<noteq> line_huge" "str ''{ broken'' \<noteq> line_huge"
proof -
  have short: "length line_system < 5006" "length line_assistant < 5006"
    "length line_result < 5006" "length line_result_old < 5006"
    "length (str ''{ broken'') < 5006"
    by (simp_all add: line_system_def line_assistant_def line_result_def line_result_old_def
        str_def)
  show "line_system \<noteq> line_huge" using short(1) line_huge_clean(5) by auto
  show "line_assistant \<noteq> line_huge" using short(2) line_huge_clean(5) by auto
  show "line_result \<noteq> line_huge" using short(3) line_huge_clean(5) by auto
  show "line_result_old \<noteq> line_huge" using short(4) line_huge_clean(5) by auto
  show "str ''{ broken'' \<noteq> line_huge" using short(5) line_huge_clean(5) by auto
qed

lemma sample_loads_lines:
  "startswith line_system (str ''{'')" "sample_loads line_system = Decoded event_system"
  "startswith line_assistant (str ''{'')" "sample_loads line_assistant = Decoded event_assistant"
  "startswith line_result (str ''{'')" "sample_loads line_result = Decoded event_result"
  "startswith line_result_old (str ''{'')"
  "sample_loads line_result_old = Decoded event_result_old"
  "\<not> startswith (str ''banner'') (str ''{'')"
  "startswith (str ''{ broken'') (str ''{'')" "sample_loads (str ''{ broken'') = JSONDecodeError"
  "sample_loads line_huge = Raises ValueError"
  unfolding sample_loads_def
  by (simp_all add: line_huge_distinct)
    (simp_all add: startswith_def line_system_def line_result_old_def line_assistant_def
      line_result_def str_def)

lemma sample_events:
  "stream_events sample_loads stream_full =
     [event_system, event_result_old, event_assistant, event_result]"
  "stream_events sample_loads stream_short = [event_system, event_assistant, event_result]"
  "stream_events sample_loads stream_assistant = [event_system, event_assistant]"
  "stream_events sample_loads stream_system = [event_system]"
  "stream_events sample_loads stream_result_huge = [event_result]"
  "stream_events sample_loads stream_assistant_huge = [event_assistant]"
  "stream_events sample_loads stream_huge = []"
  by (simp_all add: stream_events_def sample_lines sample_lines_huge sample_loads_lines
      line_huge_clean)

lemma sample_raised:
  "first_raised sample_loads (nonblank_lines stream_full) = None"
  "first_raised sample_loads (nonblank_lines stream_short) = None"
  "first_raised sample_loads (nonblank_lines stream_assistant) = None"
  "first_raised sample_loads (nonblank_lines stream_system) = None"
  "first_raised sample_loads (nonblank_lines stream_result_huge) = Some ValueError"
  "first_raised sample_loads (nonblank_lines stream_assistant_huge) = Some ValueError"
  "first_raised sample_loads (nonblank_lines stream_huge) = Some ValueError"
  by (simp_all add: sample_lines sample_lines_huge sample_loads_lines line_huge_clean)

lemma sample_types:
  "has_type t event_system \<longleftrightarrow> t = str ''system''"
  "has_type t event_assistant \<longleftrightarrow> t = str ''assistant''"
  "has_type t event_result \<longleftrightarrow> t = str ''result''"
  "has_type t event_result_old \<longleftrightarrow> t = str ''result''"
  by (auto simp: has_type_def get_def get_default_def event_system_def event_assistant_def
      event_result_def event_result_old_def)

lemma sample_last:
  "last_of_type (str ''result'') (stream_events sample_loads stream_full) = Some event_result"
  "last_of_type (str ''assistant'') (stream_events sample_loads stream_full) = Some event_assistant"
  "last_of_type (str ''system'') (stream_events sample_loads stream_full) = Some event_system"
  "last_of_type (str ''result'') (stream_events sample_loads stream_short) = Some event_result"
  "last_of_type (str ''assistant'') (stream_events sample_loads stream_short) = Some event_assistant"
  "last_of_type (str ''system'') (stream_events sample_loads stream_short) = Some event_system"
  "last_of_type (str ''result'') (stream_events sample_loads stream_assistant) = None"
  "last_of_type (str ''assistant'') (stream_events sample_loads stream_assistant) =
     Some event_assistant"
  "last_of_type (str ''result'') (stream_events sample_loads stream_system) = None"
  "last_of_type (str ''assistant'') (stream_events sample_loads stream_system) = None"
  "last_of_type (str ''system'') (stream_events sample_loads stream_system) = Some event_system"
  by (simp_all add: sample_events last_of_type_def sample_types)

lemma sample_last_huge:
  "last_of_type (str ''result'') (stream_events sample_loads stream_result_huge) =
     Some event_result"
  "last_of_type (str ''result'') (stream_events sample_loads stream_assistant_huge) = None"
  "last_of_type (str ''assistant'') (stream_events sample_loads stream_assistant_huge) =
     Some event_assistant"
  "last_of_type t (stream_events sample_loads stream_huge) = None"
  by (simp_all add: sample_events last_of_type_def sample_types)

lemma sample_nonblank:
  "strip stream_full \<noteq> []" "strip stream_short \<noteq> []" "strip stream_system \<noteq> []"
  "strip stream_assistant \<noteq> []" "strip stream_result_huge \<noteq> []"
  "strip stream_assistant_huge \<noteq> []"
  by (rule events_nonblank, rule sample_last(1), rule events_nonblank, rule sample_last(4),
      rule events_nonblank, rule sample_last(11), rule events_nonblank, rule sample_last(8),
      rule events_nonblank, rule sample_last_huge(1), rule events_nonblank,
      rule sample_last_huge(3))

lemma sample_nonblank_huge: "strip stream_huge \<noteq> []"
  using line_huge_clean(1,2) hd_in_set [of line_huge]
  by (auto simp: stream_huge_def strip_Nil_iff)

lemma sample_fields:
  "get event_result (str ''result'') = JStr (str '' Done. '')"
  "get event_assistant (str ''message'') =
     JObj [(str ''content'', JList
       [JObj [(str ''type'', JStr (str ''thinking'')), (str ''thinking'', JStr (str '' plan ''))],
        JObj [(str ''type'', JStr (str ''text'')), (str ''text'', JStr (str ''42''))]])]"
  "get [(str ''content'', JList bs)] (str ''content'') = JList bs"
  "get event_system (str ''model'') = JStr (str ''qwen-coder'')"
  "\<not> has_key event_system (str ''session_id'')"
  "has_key event_system (str ''model'')"
  "\<not> has_key event_system (str ''qwen_code_version'')"
  by (simp_all add: get_def get_default_def has_key_def event_result_def event_assistant_def
      event_system_def)

lemma sample_parts:
  "concat (map block_parts
     [JObj [(str ''type'', JStr (str ''thinking'')), (str ''thinking'', JStr (str '' plan ''))],
      JObj [(str ''type'', JStr (str ''text'')), (str ''text'', JStr (str ''42''))]]) =
   [str ''[Thinking: '' @ str ''plan'' @ str '']'', str ''42'']"
  by (simp add: block_parts_def trimmed_text_def has_type_def get_def get_default_def
      strip_samples)

lemma sample_outcomes:
  "\<exists>r. qwen_parse sample_loads stream_full stderr = Inr r"
  "\<exists>r. qwen_parse sample_loads stream_system (str ''oops'') = Inr r"
  unfolding qwen_parse_eq [OF sample_nonblank(1) sample_raised(1)]
    qwen_parse_eq [OF sample_nonblank(3) sample_raised(4)]
  by (simp_all add: sample_last result_text_of_def assistant_text_of_def collected_errors_def
      result_content_def sample_fields strip_samples)

lemma sample_raises:
  "qwen_parse sample_loads stream_result_huge stderr = Inl ValueError"
  "qwen_parse sample_loads stream_assistant_huge stderr = Inl ValueError"
  "qwen_parse sample_loads stream_huge stderr = Inl ValueError"
  by (rule qwen_parse_raises [OF sample_nonblank(5) sample_raised(5)],
      rule qwen_parse_raises [OF sample_nonblank(6) sample_raised(6)],
      rule qwen_parse_raises [OF sample_nonblank_huge sample_raised(7)])

section \<open>The plain-text parser and the recovery hook\<close>

text \<open>
  C6.  \<open>CopilotPlaintextParser.parse\<close>: when stdout trims non-empty, the content is
  the trimmed stdout, and the metadata holds the trimmed stderr under \<open>stderr\<close> exactly
  when stderr trims non-empty (the content does not depend on stderr); when stdout trims
  empty and stderr does not, the content is the fixed placeholder and the metadata holds
  the trimmed stderr under \<open>stderr\<close>; when both trim empty, \<open>ParserError\<close> is raised.
\<close>

theorem copilot_parse_cases:
  "copilot_parse stdout stderr =
     (if strip stdout \<noteq> [] then
        Inr \<lparr>content = strip stdout,
             metadata = (if strip stderr \<noteq> [] then [str ''stderr'' \<mapsto> JStr (strip stderr)]
                         else Map.empty)\<rparr>
      else if strip stderr \<noteq> [] then
        Inr \<lparr>content = copilot_placeholder,
             metadata = [str ''stderr'' \<mapsto> JStr (strip stderr)]\<rparr>
      else Inl (ParserError (str ''Copilot CLI returned empty output'')))"
  by (simp add: copilot_parse_def Let_def)

theorem copilot_parse_cases_witness:
  "copilot_parse (str '' warn '') (str '' warn '') =
     Inr \<lparr>content = str ''warn'', metadata = [str ''stderr'' \<mapsto> JStr (str ''warn'')]\<rparr> \<and>
   copilot_parse [32, 10] (str '' warn '') =
     Inr \<lparr>content = copilot_placeholder, metadata = [str ''stderr'' \<mapsto> JStr (str ''warn'')]\<rparr> \<and>
   copilot_parse [] [32, 10] = Inl (ParserError (str ''Copilot CLI returned empty output''))"
  using copilot_parse_cases [of "str '' warn ''" "str '' warn ''"]
    copilot_parse_cases [of "[32, 10]" "str '' warn ''"]
    copilot_parse_cases [of "[]" "[32, 10]"]
  by (simp add: strip_samples)

lemma combined_output_eq:
  "combined_output stdout stderr =
     strip (if stdout = [] then stderr else if stderr = [] then stdout
            else stdout @ [10] @ stderr)"
  by (simp add: combined_output_def)

text \<open>
  C5.  The recovery hook of the Copilot agent, for every return code, stdout and stderr:
  with \<open>combined\<close> the trimmed newline-join of the non-empty ones among stdout, then
  stderr, the hook returns \<open>None\<close> exactly when \<open>combined\<close> is empty; otherwise it
  returns a result whose parsed content is \<open>combined\<close> and whose parsed metadata
  records \<open>cli_error_recovered = True\<close> and the return code.
\<close>

theorem recover_from_error_cases:
  "map_option (\<lambda>out. (content (ao_parsed out), metadata (ao_parsed out)))
       (recover_from_error self returncode stdout stderr sanitized_command duration_seconds
          output_file_content) =
     (let combined = strip (if stdout = [] then stderr else if stderr = [] then stdout
                            else stdout @ [10] @ stderr)
      in if combined = [] then None
         else Some (combined, [str ''cli_error_recovered'' \<mapsto> JBool True,
                               str ''cli_returncode'' \<mapsto> JInt returncode]))"
  by (simp add: recover_from_error_def combined_output_eq Let_def)

theorem recover_from_error_cases_witness:
  "map_option (\<lambda>out. (content (ao_parsed out), metadata (ao_parsed out)))
     (recover_from_error sample_agent 2 [] (str '' warn '') [] (Finite 3 0) None) =
     Some (str ''warn'', [str ''cli_error_recovered'' \<mapsto> JBool True,
                          str ''cli_returncode'' \<mapsto> JInt 2]) \<and>
   map_option (\<lambda>out. (content (ao_parsed out), metadata (ao_parsed out)))
     (recover_from_error sample_agent 2 [] [] [] (Finite 3 0) None) = None"
  using recover_from_error_cases [of sample_agent 2 "[]" "str '' warn ''" "[]" "Finite 3 0" None]
    recover_from_error_cases [of sample_agent 2 "[]" "[]" "[]" "Finite 3 0" None]
  by (simp add: strip_samples)

text \<open>
  C9.  Every result the recovery hook produces carries, as parser name, the name of the
  agent's configured parser; the \<open>parse\<close> function of that parser plays no part in the
  result: replacing it by any other function changes nothing.
\<close>

theorem recovery_reports_parser_name:
  "map_option ao_parser_name
       (recover_from_error self returncode stdout stderr sanitized_command duration_seconds
          output_file_content) =
     (if combined_output stdout stderr = [] then None
      else Some (parser_name (agent_parser self))) \<and>
   recover_from_error (self\<lparr>agent_parser := (agent_parser self)\<lparr>parser_parse := f\<rparr>\<rparr>)
       returncode stdout stderr sanitized_command duration_seconds output_file_content =
     recover_from_error self returncode stdout stderr sanitized_command duration_seconds
       output_file_content"
  by (simp add: recover_from_error_def Let_def)

theorem recovery_reports_parser_name_witness:
  "map_option ao_parser_name
     (recover_from_error sample_agent 2 [] (str '' warn '') [] (Finite 3 0) None) =
     Some (str ''copilot_plaintext'') \<and>
   recover_from_error (sample_agent\<lparr>agent_parser := (agent_parser sample_agent)
       \<lparr>parser_parse := (\<lambda>out err. Inl TypeError)\<rparr>\<rparr>) 2 [] (str '' warn '') [] (Finite 3 0) None =
     recover_from_error sample_agent 2 [] (str '' warn '') [] (Finite 3 0) None"
  using recovery_reports_parser_name
    [of sample_agent 2 "[]" "str '' warn ''" "[]" "Finite 3 0" None "\<lambda>out err. Inl TypeError"]
  by (simp add: combined_output_eq strip_samples sample_agent_def CopilotPlaintextParser_def)

section \<open>The stream parser\<close>

text \<open>
  C1, as the claim states it, fails: on the stream of the result line followed by the
  line with the integer of 5000 digits, the last decoded event of type \<open>result\<close>
  carries a string \<open>result\<close> with non-empty trim, and \<open>parse\<close> raises the
  \<open>ValueError\<close> of the decoder instead of returning.
\<close>

theorem result_text_is_content_counterexample:
  "last_of_type (str ''result'') (stream_events sample_loads stream_result_huge) =
     Some event_result \<and>
   get event_result (str ''result'') = JStr (str '' Done. '') \<and>
   strip (str '' Done. '') \<noteq> [] \<and>
   qwen_parse sample_loads stream_result_huge (str '' warn '') = Inl ValueError"
  by (simp add: sample_last_huge sample_fields strip_samples sample_raises)

text \<open>
  C1, amended.  On a stream on whose lines the decoder raises no exception other than
  \<open>JSONDecodeError\<close>: when the last decoded event of type \<open>result\<close> carries a field
  \<open>result\<close> that is a string with non-empty trim, \<open>parse\<close> returns a response whose
  content is that string trimmed; the key \<open>stderr\<close> of the metadata holds the trimmed
  stderr exactly when stderr trims non-empty; and the later branches do not matter: this
  is the outcome whatever the remembered assistant message, the collected errors and
  stderr are.
\<close>

theorem result_text_is_content:
  assumes "first_raised loads (nonblank_lines stdout) = None"
    and "last_of_type (str ''result'') (stream_events loads stdout) = Some rm"
    and "get rm (str ''result'') = JStr text"
    and "strip text \<noteq> []"
  shows "\<exists>r. qwen_parse loads stdout stderr = Inr r \<and> content r = strip text \<and>
           metadata r (str ''stderr'') =
             (if strip stderr \<noteq> [] then Some (JStr (strip stderr)) else None) \<and>
           scan_lines loads (nonblank_lines stdout) = Inr (scanned loads stdout) \<and>
           (\<forall>a. select_content ((scanned loads stdout)\<lparr>last_assistant_message := a\<rparr>) stderr =
                  Inr r)"
proof -
  let ?st = "scanned loads stdout"
  let ?r = "\<lparr>content = strip text, metadata = attach_stderr stderr (harvested ?st)\<rparr>"
  from assms(2) have nonblank: "strip stdout \<noteq> []" by (rule events_nonblank)
  from assms(3,4) have rtext: "result_content rm = Some (strip text)" by (rule result_content_eq)
  from assms(2) have rm: "rm \<noteq> []" by (rule last_of_type_nonempty)
  have parse: "qwen_parse loads stdout stderr = Inr ?r"
    unfolding qwen_parse_eq [OF nonblank assms(1)]
    by (simp add: assms(2) result_text_of_def rtext)
  have any: "select_content (?st\<lparr>last_assistant_message := a\<rparr>) stderr = Inr ?r" for a
    using rm rtext
    by (simp add: select_content_def Let_def split_beta scan_fields assms(2) harvested_def
        build_metadata_def)
  have loop: "scan_lines loads (nonblank_lines stdout) = Inr ?st"
    by (simp add: scan_lines_eq assms(1))
  have "metadata ?r (str ''stderr'') =
          (if strip stderr \<noteq> [] then Some (JStr (strip stderr)) else None)"
    using qwen_parse_metadata [OF parse, of "str ''stderr''"] by simp
  with parse any loop show ?thesis by simp
qed

theorem result_text_is_content_witness:
  "first_raised sample_loads (nonblank_lines stream_full) = None \<and>
   last_of_type (str ''result'') (stream_events sample_loads stream_full) = Some event_result \<and>
   get event_result (str ''result'') = JStr (str '' Done. '') \<and>
   strip (str '' Done. '') \<noteq> [] \<and>
   (\<exists>r. qwen_parse sample_loads stream_full (str '' warn '') = Inr r \<and>
        content r = str ''Done.'' \<and>
        metadata r (str ''stderr'') = Some (JStr (str ''warn'')))"
proof -
  have quiet: "first_raised sample_loads (nonblank_lines stream_full) = None"
    by (rule sample_raised)
  have last: "last_of_type (str ''result'') (stream_events sample_loads stream_full) =
      Some event_result"
    by (rule sample_last)
  have field: "get event_result (str ''result'') = JStr (str '' Done. '')"
    by (rule sample_fields)
  have nonempty: "strip (str '' Done. '') \<noteq> []"
    by (simp add: strip_samples)
  from result_text_is_content [OF quiet last field nonempty, of "str '' warn ''"]
    quiet last field nonempty
  show ?thesis by (auto simp: strip_samples)
qed

text \<open>
  C2.  Whenever \<open>parse\<close> returns, whichever branch supplied the content, the metadata
  holds under \<open>raw_events\<close> exactly the objects decoded from the trimmed non-blank
  lines of stdout that start with \<open>{\<close> and decode without error, in line order and
  with duplicates kept; every other line contributes nothing.
\<close>

theorem raw_events_are_the_decoded_objects:
  assumes "qwen_parse loads stdout stderr = Inr r"
  shows "metadata r (str ''raw_events'') =
           Some (JList (map (\<lambda>line. JObj (the (returned (loads line))))
             (filter (\<lambda>line. startswith line (str ''{'') \<and> returned (loads line) \<noteq> None)
                (nonblank_lines stdout))))"
  using qwen_parse_metadata [OF assms, of "str ''raw_events''"]
  by (simp add: harvested_raw_events scan_fields stream_events_def decoded_objects_filter o_def)

theorem raw_events_are_the_decoded_objects_witness:
  "nonblank_lines stream_full =
     [str ''banner'', line_system, str ''{ broken'', line_result_old, line_assistant,
      line_result] \<and>
   (\<exists>r. qwen_parse sample_loads stream_full (str '' warn '') = Inr r \<and>
        metadata r (str ''raw_events'') =
          Some (JList [JObj event_system, JObj event_result_old, JObj event_assistant,
                       JObj event_result]))"
proof -
  from sample_outcomes(1) obtain r where
    parse: "qwen_parse sample_loads stream_full (str '' warn '') = Inr r" by blast
  from raw_events_are_the_decoded_objects [OF parse] parse show ?thesis
    by (auto simp: sample_lines sample_loads_lines returned_def)
qed

text \<open>
  C3, as the claim states it, fails: on the stream of the assistant line followed by the
  line with the integer of 5000 digits, no result event yields content, the last
  assistant event has blocks whose joined text is non-empty, and \<open>parse\<close> raises the
  \<open>ValueError\<close> of the decoder instead of returning that text.
\<close>

theorem assistant_fallback_counterexample:
  "result_text_of
     (last_of_type (str ''result'') (stream_events sample_loads stream_assistant_huge)) = None \<and>
   last_of_type (str ''assistant'') (stream_events sample_loads stream_assistant_huge) =
     Some event_assistant \<and>
   extract_assistant_text event_assistant =
     Some (str ''[Thinking: plan]'' @ [10, 10] @ str ''42'') \<and>
   qwen_parse sample_loads stream_assistant_huge [] = Inl ValueError"
proof -
  have "extract_assistant_text event_assistant =
      Some (str ''[Thinking: plan]'' @ [10, 10] @ str ''42'')"
    unfolding extract_assistant_text_eq [OF sample_fields(2) sample_fields(3)] sample_parts
    by (simp add: str_def)
  then show ?thesis
    by (simp add: sample_last_huge result_text_of_def sample_raises)
qed

text \<open>
  C3, amended.  On a stream on whose lines the decoder raises no exception other than
  \<open>JSONDecodeError\<close>: when no result event yields content and an event of type
  \<open>assistant\<close> was decoded, the text is extracted from the last such event by walking
  the blocks of \<open>message.content\<close> in order: a \<open>text\<close> block contributes its trimmed
  text, a \<open>thinking\<close> block its trimmed text as \<open>[Thinking: ...]\<close>, and the parts are
  joined by a blank line; when the joined text is non-empty, it is the content returned,
  with the trimmed stderr under \<open>stderr\<close> exactly when stderr trims non-empty.
\<close>

theorem assistant_fallback:
  assumes "first_raised loads (nonblank_lines stdout) = None"
    and "result_text_of (last_of_type (str ''result'') (stream_events loads stdout)) = None"
    and "last_of_type (str ''assistant'') (stream_events loads stdout) = Some am"
    and "get am (str ''message'') = JObj message"
    and "get message (str ''content'') = JList blocks"
    and "join [10, 10] (concat (map block_parts blocks)) \<noteq> []"
  shows "extract_assistant_text am = Some (join [10, 10] (concat (map block_parts blocks))) \<and>
         (\<exists>r. qwen_parse loads stdout stderr = Inr r \<and>
            content r = join [10, 10] (concat (map block_parts blocks)) \<and>
            metadata r (str ''stderr'') =
              (if strip stderr \<noteq> [] then Some (JStr (strip stderr)) else None))"
proof -
  let ?st = "scanned loads stdout"
  let ?text = "join [10, 10] (concat (map block_parts blocks))"
  let ?r = "\<lparr>content = ?text, metadata = attach_stderr stderr (harvested ?st)\<rparr>"
  from assms(3) have nonblank: "strip stdout \<noteq> []" by (rule events_nonblank)
  have "concat (map block_parts blocks) \<noteq> []"
  proof
    assume "concat (map block_parts blocks) = []"
    then have "join [10, 10] (concat (map block_parts blocks)) = []" by (simp only: join.simps)
    with assms(6) show False by simp
  qed
  then have extracted: "extract_assistant_text am = Some ?text"
    by (simp add: extract_assistant_text_eq [OF assms(4,5)])
  have parse: "qwen_parse loads stdout stderr = Inr ?r"
    unfolding qwen_parse_eq [OF nonblank assms(1)]
    by (simp add: assms(2,3) assistant_text_of_def extracted)
  have "metadata ?r (str ''stderr'') =
          (if strip stderr \<noteq> [] then Some (JStr (strip stderr)) else None)"
    using qwen_parse_metadata [OF parse, of "str ''stderr''"] by simp
  with parse extracted show ?thesis by simp
qed

theorem assistant_fallback_witness:
  "first_raised sample_loads (nonblank_lines stream_assistant) = None \<and>
   result_text_of (last_of_type (str ''result'') (stream_events sample_loads stream_assistant)) =
     None \<and>
   last_of_type (str ''assistant'') (stream_events sample_loads stream_assistant) =
     Some event_assistant \<and>
   (\<exists>r. qwen_parse sample_loads stream_assistant [] = Inr r \<and>
        content r = str ''[Thinking: plan]'' @ [10, 10] @ str ''42'' \<and>
        metadata r (str ''stderr'') = None)"
proof -
  let ?blocks =
    "[JObj [(str ''type'', JStr (str ''thinking'')), (str ''thinking'', JStr (str '' plan ''))],
      JObj [(str ''type'', JStr (str ''text'')), (str ''text'', JStr (str ''42''))]]"
  have quiet: "first_raised sample_loads (nonblank_lines stream_assistant) = None"
    by (rule sample_raised)
  have no_result:
    "result_text_of (last_of_type (str ''result'') (stream_events sample_loads stream_assistant)) =
       None"
    by (simp add: sample_last result_text_of_def)
  have last: "last_of_type (str ''assistant'') (stream_events sample_loads stream_assistant) =
      Some event_assistant"
    by (rule sample_last)
  have message: "get event_assistant (str ''message'') = JObj [(str ''content'', JList ?blocks)]"
    by (rule sample_fields)
  have blocks: "get [(str ''content'', JList ?blocks)] (str ''content'') = JList ?blocks"
    by (rule sample_fields)
  have joined: "join [10, 10] (concat (map block_parts ?blocks)) =
      str ''[Thinking: plan]'' @ [10, 10] @ str ''42''"
    unfolding sample_parts by (simp add: str_def)
  have nonempty: "join [10, 10] (concat (map block_parts ?blocks)) \<noteq> []"
    unfolding joined by (simp add: str_def)
  from assistant_fallback [OF quiet no_result last message blocks nonempty, of "[]"]
    quiet no_result last
  show ?thesis unfolding joined by auto
qed

text \<open>
  C4.  The loop either raises what the decoder raises first or remembers, for the types
  \<open>result\<close>, \<open>assistant\<close> and \<open>system\<close>, the last events of these types in line order;
  and two streams whose last events of each of the three types coincide, and on which
  the decoder raises the same exception first or none, have the same outcome, up to the
  key \<open>raw_events\<close> of the metadata: earlier events show in \<open>raw_events\<close> only.
\<close>

theorem last_event_of_each_type_wins:
  assumes "strip stdout = [] \<longleftrightarrow> strip stdout' = []"
    and "first_raised loads (nonblank_lines stdout) = first_raised loads (nonblank_lines stdout')"
    and "\<forall>t \<in> {str ''result'', str ''assistant'', str ''system''}.
           last_of_type t (stream_events loads stdout) =
           last_of_type t (stream_events loads stdout')"
  shows "scan_lines loads (nonblank_lines stdout) =
           (case first_raised loads (nonblank_lines stdout) of
              Some e \<Rightarrow> Inl e
            | None \<Rightarrow>
                Inr \<lparr>events = stream_events loads stdout,
                     result_message = last_of_type (str ''result'') (stream_events loads stdout),
                     last_assistant_message =
                       last_of_type (str ''assistant'') (stream_events loads stdout),
                     system_message =
                       last_of_type (str ''system'') (stream_events loads stdout)\<rparr>) \<and>
         without_raw_events (qwen_parse loads stdout stderr) =
           without_raw_events (qwen_parse loads stdout' stderr)"
proof -
  let ?st = "scanned loads stdout"
  let ?st' = "scanned loads stdout'"
  from assms(3) have same:
    "result_message ?st = result_message ?st'"
    "last_assistant_message ?st = last_assistant_message ?st'"
    "system_message ?st = system_message ?st'"
    by (simp_all add: scan_fields)
  have selected: "without_raw_events (select_content ?st stderr) =
        without_raw_events (select_content ?st' stderr)"
    using same scan_nonempty(1,2) by (rule select_content_without_raw_events)
  have "without_raw_events (qwen_parse loads stdout stderr) =
      without_raw_events (qwen_parse loads stdout' stderr)"
  proof (cases "strip stdout = []")
    case True
    with assms(1) show ?thesis by (simp add: qwen_parse_def)
  next
    case False
    with assms(1) have "strip stdout' \<noteq> []" by simp
    with False selected show ?thesis
      by (simp add: qwen_parse_nonblank assms(2) [symmetric] split: option.split)
  qed
  moreover have "scan_lines loads (nonblank_lines stdout) =
      (case first_raised loads (nonblank_lines stdout) of
         Some e \<Rightarrow> Inl e
       | None \<Rightarrow> Inr ?st)"
    by (rule scan_lines_eq)
  ultimately show ?thesis by (simp add: scanned_def cong: option.case_cong)
qed

theorem last_event_of_each_type_wins_witness:
  "strip stream_full \<noteq> [] \<and> strip stream_short \<noteq> [] \<and>
   first_raised sample_loads (nonblank_lines stream_full) = None \<and>
   first_raised sample_loads (nonblank_lines stream_short) = None \<and>
   last_of_type (str ''result'') (stream_events sample_loads stream_full) =
     last_of_type (str ''result'') (stream_events sample_loads stream_short) \<and>
   last_of_type (str ''assistant'') (stream_events sample_loads stream_full) =
     last_of_type (str ''assistant'') (stream_events sample_loads stream_short) \<and>
   last_of_type (str ''system'') (stream_events sample_loads stream_full) =
     last_of_type (str ''system'') (stream_events sample_loads stream_short) \<and>
   stream_events sample_loads stream_full \<noteq> stream_events sample_loads stream_short \<and>
   scan_lines sample_loads (nonblank_lines stream_full) =
     Inr \<lparr>events = [event_system, event_result_old, event_assistant, event_result],
          result_message = Some event_result,
          last_assistant_message = Some event_assistant,
          system_message = Some event_system\<rparr> \<and>
   without_raw_events (qwen_parse sample_loads stream_full (str '' warn '')) =
     without_raw_events (qwen_parse sample_loads stream_short (str '' warn ''))"
proof -
  have blank: "strip stream_full = [] \<longleftrightarrow> strip stream_short = []"
    by (simp add: sample_nonblank)
  have quiet: "first_raised sample_loads (nonblank_lines stream_full) =
      first_raised sample_loads (nonblank_lines stream_short)"
    by (simp add: sample_raised)
  have same: "\<forall>t \<in> {str ''result'', str ''assistant'', str ''system''}.
      last_of_type t (stream_events sample_loads stream_full) =
      last_of_type t (stream_events sample_loads stream_short)"
    by (simp add: sample_last)
  have differ: "stream_events sample_loads stream_full \<noteq> stream_events sample_loads stream_short"
    by (simp add: sample_events)
  from last_event_of_each_type_wins [OF blank quiet same, of "str '' warn ''"] differ
  show ?thesis
    by (simp add: sample_nonblank sample_raised sample_events(1,2) last_of_type_def
        sample_types)
qed

text \<open>
  C7, as the claim states it, fails: the stream that is the one line with the integer
  of 5000 digits trims non-empty and yields no result content, no assistant text and no
  collected error message; with a stderr that trims non-empty \<open>parse\<close> returns no
  placeholder, and with an empty stderr it raises no \<open>ParserError\<close>: both times it
  raises the \<open>ValueError\<close> of the decoder.
\<close>

theorem no_content_falls_back_to_stderr_counterexample:
  "strip stream_huge \<noteq> [] \<and>
   result_text_of (last_of_type (str ''result'') (stream_events sample_loads stream_huge)) =
     None \<and>
   assistant_text_of
     (last_of_type (str ''assistant'') (stream_events sample_loads stream_huge)) = None \<and>
   collected_errors (last_of_type (str ''result'') (stream_events sample_loads stream_huge)) =
     [] \<and>
   strip (str ''oops'') \<noteq> [] \<and>
   qwen_parse sample_loads stream_huge (str ''oops'') = Inl ValueError \<and>
   strip [] = [] \<and>
   qwen_parse sample_loads stream_huge [] = Inl ValueError"
  by (simp add: sample_nonblank_huge sample_last_huge result_text_of_def assistant_text_of_def
      collected_errors_def strip_samples sample_raises)

text \<open>
  C7, amended.  On a stream on whose lines the decoder raises no exception other than
  \<open>JSONDecodeError\<close>: when stdout trims non-empty and yields no result content, no
  assistant text and no collected error message, then if stderr trims non-empty,
  \<open>parse\<close> returns the fixed placeholder as content with the trimmed stderr under
  \<open>stderr\<close>; if stderr trims empty, it raises \<open>ParserError\<close> with a message that says
  that the stream did not contain a result or assistant message.
\<close>

theorem no_content_falls_back_to_stderr:
  assumes "strip stdout \<noteq> []"
    and "first_raised loads (nonblank_lines stdout) = None"
    and "result_text_of (last_of_type (str ''result'') (stream_events loads stdout)) = None"
    and "assistant_text_of (last_of_type (str ''assistant'') (stream_events loads stdout)) = None"
    and "collected_errors (last_of_type (str ''result'') (stream_events loads stdout)) = []"
  shows "(strip stderr \<noteq> [] \<longrightarrow>
            (\<exists>r. qwen_parse loads stdout stderr = Inr r \<and> content r = qwen_placeholder \<and>
                 metadata r (str ''stderr'') = Some (JStr (strip stderr)))) \<and>
         (strip stderr = [] \<longrightarrow>
            qwen_parse loads stdout stderr = Inl (ParserError qwen_no_result)) \<and>
         qwen_no_result =
           str ''Qwen CLI stream-json output '' @ str ''did not contain a result or assistant'' @
           str '' message''"
proof -
  have "qwen_no_result =
      str ''Qwen CLI stream-json output '' @ str ''did not contain a result or assistant'' @
      str '' message''"
    by (simp add: qwen_no_result_def str_def)
  moreover have "qwen_parse loads stdout stderr =
      (if strip stderr \<noteq> [] then
         Inr \<lparr>content = qwen_placeholder,
              metadata = (harvested (scanned loads stdout))
                (str ''stderr'' \<mapsto> JStr (strip stderr))\<rparr>
       else Inl (ParserError qwen_no_result))"
    unfolding qwen_parse_eq [OF assms(1,2)] by (simp add: assms(3,4,5))
  ultimately show ?thesis by simp
qed

theorem no_content_falls_back_to_stderr_witness:
  "strip stream_system \<noteq> [] \<and>
   first_raised sample_loads (nonblank_lines stream_system) = None \<and>
   (\<exists>r. qwen_parse sample_loads stream_system (str ''oops'') = Inr r \<and>
        content r = qwen_placeholder \<and> metadata r (str ''stderr'') = Some (JStr (str ''oops''))) \<and>
   qwen_parse sample_loads stream_system [32, 10] = Inl (ParserError qwen_no_result)"
proof -
  have nonblank: "strip stream_system \<noteq> []" by (rule sample_nonblank)
  have quiet: "first_raised sample_loads (nonblank_lines stream_system) = None"
    by (rule sample_raised)
  have no_result:
    "result_text_of (last_of_type (str ''result'') (stream_events sample_loads stream_system)) =
       None"
    by (simp add: sample_last result_text_of_def)
  have no_assistant:
    "assistant_text_of
       (last_of_type (str ''assistant'') (stream_events sample_loads stream_system)) = None"
    by (simp add: sample_last assistant_text_of_def)
  have no_errors:
    "collected_errors (last_of_type (str ''result'') (stream_events sample_loads stream_system)) =
       []"
    by (simp add: sample_last collected_errors_def)
  from no_content_falls_back_to_stderr [OF nonblank quiet no_result no_assistant no_errors,
      of "str ''oops''"]
    no_content_falls_back_to_stderr [OF nonblank quiet no_result no_assistant no_errors,
      of "[32, 10]"]
    nonblank quiet
  show ?thesis by (simp add: strip_samples)
qed

text \<open>
  C8.  For every stderr and every decoder, \<open>parse\<close> on a stdout that trims empty raises
  \<open>ParserError\<close> with a message that mentions empty stdout; no line is split or
  decoded and no metadata is built for this outcome.
\<close>

theorem empty_stdout_fails:
  assumes "strip stdout = []"
  shows "qwen_parse loads stdout stderr = Inl (ParserError qwen_empty_stdout) \<and>
         qwen_empty_stdout =
           str ''Qwen CLI returned '' @ str ''empty stdout'' @
           str '' while stream-json output was expected''"
  using assms by (simp add: qwen_parse_def qwen_empty_stdout_def str_def)

theorem empty_stdout_fails_witness:
  "strip [32, 10] = [] \<and>
   qwen_parse sample_loads [32, 10] (str ''oops'') = Inl (ParserError qwen_empty_stdout)"
proof -
  have blank: "strip [32, 10] = []" by (rule strip_samples)
  from empty_stdout_fails [OF blank, of sample_loads "str ''oops''"] blank
  show ?thesis by simp
qed

text \<open>
  C10.  When \<open>parse\<close> returns and an event of type \<open>system\<close> was decoded, the
  metadata holds the keys \<open>session_id\<close> and \<open>model\<close> with the values of these fields
  in the last system event, \<open>None\<close> when the event lacks the field; the key
  \<open>cli_version\<close> is present exactly when that event has the key
  \<open>qwen_code_version\<close>.
\<close>

theorem system_metadata_keys:
  assumes "qwen_parse loads stdout stderr = Inr r"
    and "last_of_type (str ''system'') (stream_events loads stdout) = Some sm"
  shows "metadata r (str ''session_id'') = Some (get sm (str ''session_id'')) \<and>
         metadata r (str ''model'') = Some (get sm (str ''model'')) \<and>
         (\<not> has_key sm (str ''session_id'') \<longrightarrow> metadata r (str ''session_id'') = Some JNull) \<and>
         (\<not> has_key sm (str ''model'') \<longrightarrow> metadata r (str ''model'') = Some JNull) \<and>
         (str ''cli_version'' \<in> dom (metadata r) \<longleftrightarrow> has_key sm (str ''qwen_code_version''))"
proof -
  let ?st = "scanned loads stdout"
  from assms(2) have sm: "system_message ?st = Some sm" by (simp add: scan_fields)
  from assms(2) have nonempty: "sm \<noteq> []" by (rule last_of_type_nonempty)
  have absent: "get sm k = JNull" if "\<not> has_key sm k" for k
    using that by (simp add: has_key_def get_def get_default_def)
  have "metadata r (str ''session_id'') = Some (get sm (str ''session_id''))"
    using qwen_parse_metadata [OF assms(1), of "str ''session_id''"]
    by (simp add: harvested_keep build_metadata_system(1) [OF sm nonempty])
  moreover have "metadata r (str ''model'') = Some (get sm (str ''model''))"
    using qwen_parse_metadata [OF assms(1), of "str ''model''"]
    by (simp add: harvested_keep build_metadata_system(2) [OF sm nonempty])
  moreover have "metadata r (str ''cli_version'') =
      (if has_key sm (str ''qwen_code_version'')
       then Some (get sm (str ''qwen_code_version'')) else None)"
    using qwen_parse_metadata [OF assms(1), of "str ''cli_version''"]
    by (simp add: harvested_keep build_metadata_system(3) [OF sm nonempty])
  ultimately show ?thesis by (auto simp: absent dom_def)
qed

theorem system_metadata_keys_witness:
  "last_of_type (str ''system'') (stream_events sample_loads stream_system) = Some event_system \<and>
   (\<exists>r. qwen_parse sample_loads stream_system (str ''oops'') = Inr r \<and>
        metadata r (str ''session_id'') = Some JNull \<and>
        metadata r (str ''model'') = Some (JStr (str ''qwen-coder'')) \<and>
        str ''cli_version'' \<notin> dom (metadata r))"
proof -
  from sample_outcomes(2) obtain r where
    parse: "qwen_parse sample_loads stream_system (str ''oops'') = Inr r" by blast
  have last: "last_of_type (str ''system'') (stream_events sample_loads stream_system) =
      Some event_system"
    by (rule sample_last)
  from system_metadata_keys [OF parse last] parse last show ?thesis
    by (auto simp: sample_fields)
qed

end
